theory Spec2Isabelle
  imports Main "HOL-Library.Sublist"
begin

section \<open>JavaScript string primitives used by the sources\<close>

text \<open>
  Strings are lists of characters. The sources only inspect ASCII characters (path
  separators, placeholders, shell metacharacters, letter case of editor names), so the
  case mapping and the white space class below are the ASCII ones: \<open>toLowerCase\<close>
  maps the letters A to Z and leaves every other character as it is. The letters beyond
  ASCII that \<open>String.prototype.toLowerCase\<close> also maps are outside the model.
\<close>

definition upperAZ :: string where "upperAZ = ''ABCDEFGHIJKLMNOPQRSTUVWXYZ''"
definition lowerAZ :: string where "lowerAZ = ''abcdefghijklmnopqrstuvwxyz''"

definition toLowerChar :: "char \<Rightarrow> char" where
  "toLowerChar c = (case map_of (zip upperAZ lowerAZ) c of None \<Rightarrow> c | Some d \<Rightarrow> d)"

definition toLowerCase :: "string \<Rightarrow> string" where
  "toLowerCase s = map toLowerChar s"

definition startsWith :: "string \<Rightarrow> string \<Rightarrow> bool" where
  "startsWith s p = prefix p s"

definition endsWith :: "string \<Rightarrow> string \<Rightarrow> bool" where
  "endsWith s p = suffix p s"

text \<open>\<open>s.indexOf(p)\<close>: the position of the first occurrence of \<open>p\<close> in \<open>s\<close>; \<open>None\<close> is -1.\<close>

fun indexOf :: "string \<Rightarrow> string \<Rightarrow> nat option" where
  "indexOf [] p = (if p = [] then Some 0 else None)"
| "indexOf (c # cs) p =
     (if prefix p (c # cs) then Some 0 else map_option Suc (indexOf cs p))"

definition includesStr :: "string \<Rightarrow> string \<Rightarrow> bool" where
  "includesStr s p = (indexOf s p \<noteq> None)"

text \<open>
  \<open>GetSubstitution\<close> of ECMAScript for a string pattern (no capture groups): in the
  replacement text \<open>$$\<close> stands for a dollar sign, \<open>$&\<close> for the matched text,
  \<open>$`\<close> for the text before the match and \<open>$'\<close> for the text after it; every other
  character, a dollar sign before a digit included, stands for itself.
\<close>

fun getSubstitution :: "string \<Rightarrow> string \<Rightarrow> nat \<Rightarrow> string \<Rightarrow> string" where
  "getSubstitution m s p [] = []"
| "getSubstitution m s p [c] = [c]"
| "getSubstitution m s p (c # d # r) =
     (if c = CHR 0x24 then
        (if d = CHR 0x24 then CHR 0x24 # getSubstitution m s p r
         else if d = CHR 0x26 then m @ getSubstitution m s p r
         else if d = CHR 0x60 then take p s @ getSubstitution m s p r
         else if d = CHR 0x27 then drop (p + length m) s @ getSubstitution m s p r
         else c # getSubstitution m s p (d # r))
      else c # getSubstitution m s p (d # r))"

text \<open>\<open>s.replace(pat, repl)\<close> with a string pattern: the first occurrence only.\<close>

definition replace :: "string \<Rightarrow> string \<Rightarrow> string \<Rightarrow> string" where
  "replace s pat repl =
     (case indexOf s pat of
        None \<Rightarrow> s
      | Some i \<Rightarrow> take i s @ getSubstitution pat s i repl @ drop (i + length pat) s)"

text \<open>
  Line and column numbers are integers of magnitude below \<open>10^21\<close>, which
  \<open>Number.prototype.toString\<close> prints in decimal digits, with a minus sign when
  negative. Larger numbers, which JavaScript prints with an exponent, fractions and NaN
  are outside the model: \<open>numToString\<close> is the rendering of a line or column number
  only.
\<close>

fun digits :: "nat \<Rightarrow> string" where
  "digits n =
     (if n < 10 then [''0123456789'' ! n]
      else digits (n div 10) @ [''0123456789'' ! (n mod 10)])"

declare digits.simps [simp del]

definition numToString :: "int \<Rightarrow> string" where
  "numToString i = (if i < 0 then CHR ''-'' # digits (nat (- i)) else digits (nat i))"

text \<open>A value of type \<open>string | number\<close>.\<close>

datatype strnum = Str string | Num int

fun toString :: "strnum \<Rightarrow> string" where
  "toString (Str s) = s"
| "toString (Num i) = numToString i"

section \<open>Argument synthesis (get-args.ts)\<close>

definition FormatFile :: string where "FormatFile = ''{file}''"
definition FormatLine :: string where "FormatLine = ''{line}''"
definition FormatColumn :: string where "FormatColumn = ''{column}''"

text \<open>A value of type \<open>string | string[] | boolean\<close>, the type of a path format.\<close>

datatype format = FStr string | FArr "string list" | FBool bool

text \<open>JavaScript truthiness of an optional path format (\<open>None\<close> is undefined or null).\<close>

fun truthy :: "format option \<Rightarrow> bool" where
  "truthy None = False"
| "truthy (Some (FStr s)) = (s \<noteq> [])"
| "truthy (Some (FArr xs)) = True"
| "truthy (Some (FBool b)) = b"

text \<open>
  The three calls of \<open>replace\<close> that \<open>formatOpenPath\<close> applies to a template, for
  the file, then the line, then the column.
\<close>

definition substitute :: "string \<Rightarrow> strnum \<Rightarrow> strnum \<Rightarrow> string \<Rightarrow> string" where
  "substitute file line column item =
     replace (replace (replace item FormatFile file) FormatLine (toString line))
       FormatColumn (toString column)"

fun formatOpenPath :: "string \<Rightarrow> strnum \<Rightarrow> strnum \<Rightarrow> format \<Rightarrow> string list" where
  "formatOpenPath file line column (FStr fmt) = [substitute file line column fmt]"
| "formatOpenPath file line column (FArr fmts) = map (substitute file line column) fmts"
| "formatOpenPath file line column (FBool b) =
     [file @ '':'' @ toString line @ '':'' @ toString column]"

text \<open>
  \<open>path.basename\<close> of Node: trailing separators are dropped, then the text after the
  last separator is kept. The Windows variant takes both slashes as separators and skips
  a leading drive prefix such as \<open>C:\<close>.
\<close>

datatype platform = Darwin | Linux | Win32

definition isPathSeparator :: "platform \<Rightarrow> char \<Rightarrow> bool" where
  "isPathSeparator pf c = (c = CHR ''/'' \<or> (pf = Win32 \<and> c = CHR 0x5C))"

definition hasDrivePrefix :: "string \<Rightarrow> bool" where
  "hasDrivePrefix s =
     (case s of c # d # r \<Rightarrow> (c \<in> set upperAZ \<or> c \<in> set lowerAZ) \<and> d = CHR '':'' | _ \<Rightarrow> False)"

definition basename :: "platform \<Rightarrow> string \<Rightarrow> string" where
  "basename pf s =
     (let body = (if pf = Win32 \<and> hasDrivePrefix s then drop 2 s else s)
      in rev (takeWhile (\<lambda>c. \<not> isPathSeparator pf c)
                (dropWhile (isPathSeparator pf) (rev body))))"

text \<open>\<open>s.replace(/\.(exe|cmd|bat|sh)$/i, "")\<close>: one executable extension at the end is cut.\<close>

definition stripExt :: "string \<Rightarrow> string" where
  "stripExt s =
     (let l = toLowerCase s in
      if endsWith l ''.exe'' \<or> endsWith l ''.cmd'' \<or> endsWith l ''.bat''
        then take (length s - 4) s
      else if endsWith l ''.sh'' then take (length s - 3) s
      else s)"

text \<open>
  The static tables of editor-info.ts and everything read from the operating system are
  parameters of the model. A table is the list of its entries in the order \<open>Object.keys\<close>
  enumerates them. For a configuration file and for a command, \<open>None\<close> means that the
  file is absent and that the command failed.
\<close>

record env =
  platform :: platform
  COMMON_EDITOR_PROCESS_MAP :: "platform \<Rightarrow> (string \<times> string list) list"
  COMMON_EDITORS_MAP :: "platform \<Rightarrow> (string \<times> string) list"
  env_CODE_EDITOR :: "string option"
  env_CODE_INSPECTOR_FORMAT_PATH :: "string option"
  env_VISUAL :: "string option"
  env_EDITOR :: "string option"
  dotenv_local :: "(string \<times> string) list option"
  JSON_parse :: "string \<Rightarrow> format option"
  existsSync :: "string \<Rightarrow> bool"
  execSync :: "string \<Rightarrow> string option"
  os_release :: string
  path_relative :: "string \<Rightarrow> string"
  chalk_cyan :: "string \<Rightarrow> string"
  chalk_green :: "string \<Rightarrow> string"

definition getEditorBasenameByProcessName :: "env \<Rightarrow> string \<Rightarrow> string" where
  "getEditorBasenameByProcessName e processName =
     (let editorBasename = stripExt (basename (platform e) processName);
          editorBasenames = COMMON_EDITOR_PROCESS_MAP e (platform e)
      in toLowerCase
           (case find (\<lambda>(name, editorPaths). list_ex (endsWith processName) editorPaths)
                   editorBasenames of
              Some (name, editorPaths) \<Rightarrow> name
            | None \<Rightarrow> editorBasename))"

definition getFormatByEditor :: "string \<Rightarrow> string \<Rightarrow> string option \<Rightarrow> format" where
  "getFormatByEditor editorBasename openWindowParams workspace =
     (if editorBasename \<in> set [''atom'', ''atom beta'', ''subl'', ''sublime'',
           ''sublime_text'', ''wstorm'', ''charm'', ''zed'']
        then FStr (FormatFile @ '':'' @ FormatLine @ '':'' @ FormatColumn)
      else if editorBasename = ''notepad++''
        then FArr [''-n'' @ FormatLine, ''-c'' @ FormatColumn, FormatFile]
      else if editorBasename \<in> set [''vim'', ''mvim'']
        then FArr [''+call cursor('' @ FormatLine @ '', '' @ FormatColumn @ '')'', FormatFile]
      else if editorBasename \<in> set [''joe'', ''gvim'']
        then FArr [''+'' @ FormatLine, FormatFile]
      else if editorBasename \<in> set [''emacs'', ''emacsclient'']
        then FArr [''+'' @ FormatLine @ '':'' @ FormatColumn, FormatFile]
      else if editorBasename \<in> set [''rmate'', ''mate'', ''mine'']
        then FArr [''--line'', FormatLine, FormatFile]
      else if editorBasename \<in> set [''code'', ''code-insiders'', ''code - insiders'',
           ''codium'', ''cursor'', ''windsurf'', ''vscodium'', ''hbuilderx'', ''hbuilder'']
        then FArr ((case workspace of None \<Rightarrow> [] | Some w \<Rightarrow> if w = [] then [] else [w])
                  @ [''-g'']
                  @ (if openWindowParams = [] then [] else [openWindowParams])
                  @ [FormatFile @ '':'' @ FormatLine @ '':'' @ FormatColumn])
      else if editorBasename \<in> set [''appcode'', ''clion'', ''clion64'', ''idea'', ''idea64'',
           ''phpstorm'', ''phpstorm64'', ''pycharm'', ''pycharm64'', ''rubymine'',
           ''rubymine64'', ''webstorm'', ''webstorm64'', ''goland'', ''goland64'', ''rider'',
           ''rider64'']
        then FArr ((case workspace of None \<Rightarrow> [] | Some w \<Rightarrow> if w = [] then [] else [w])
                  @ [''--line'', FormatLine, FormatFile])
      else FStr [])"

record arguments_params =
  processName :: string
  fileName :: string
  lineNumber :: strnum
  colNumber :: strnum
  workspace :: "string option"
  openWindowParams :: string
  pathFormat :: "format option"

definition getArguments :: "env \<Rightarrow> arguments_params \<Rightarrow> string list" where
  "getArguments e params =
     (let editorBasename = getEditorBasenameByProcessName e (processName params);
          byEditor = getFormatByEditor editorBasename (openWindowParams params)
                       (workspace params);
          fmt = (if truthy (Some byEditor) then byEditor else FStr ''{file}'')
      in formatOpenPath (fileName params) (lineNumber params) (colNumber params)
           (if truthy (pathFormat params) then the (pathFormat params) else fmt))"

section \<open>Editor resolution (guess.ts)\<close>

definition isWhiteSpace :: "char \<Rightarrow> bool" where
  "isWhiteSpace c = (c \<in> set [CHR 0x09, CHR 0x0A, CHR 0x0B, CHR 0x0C, CHR 0x0D, CHR 0x20])"

definition trim :: "string \<Rightarrow> string" where
  "trim s = rev (dropWhile isWhiteSpace (rev (dropWhile isWhiteSpace s)))"

text \<open>\<open>s.split(sep)\<close>; the sources split at the line ends \<open>\n\<close> and \<open>\r\n\<close> only.\<close>

function split :: "string \<Rightarrow> string \<Rightarrow> string list" where
  "split s sep =
     (if sep = [] then [s]
      else case indexOf s sep of
             None \<Rightarrow> [s]
           | Some i \<Rightarrow> take i s # split (drop (i + length sep) s) sep)"
  by pat_completeness auto
termination
proof (relation "measure (\<lambda>(s, sep). length s)")
  show "wf (measure (\<lambda>(s, sep). length s))" by simp
next
  fix s sep :: string and i
  assume sep: "sep \<noteq> []" and found: "indexOf s sep = Some i"
  have bound: "indexOf t sep = Some j \<Longrightarrow> j + length sep \<le> length t" for t j
  proof (induction t arbitrary: j)
    case Nil
    then show ?case by (simp split: if_splits)
  next
    case (Cons c cs)
    show ?case
    proof (cases "prefix sep (c # cs)")
      case True
      with Cons.prems show ?thesis by (auto dest: prefix_length_le)
    next
      case False
      with Cons.prems obtain k where "indexOf cs sep = Some k" "j = Suc k" by auto
      with Cons.IH show ?thesis by fastforce
    qed
  qed
  from sep have "0 < length sep" by simp
  moreover from found have "i + length sep \<le> length s" by (rule bound)
  ultimately have "length s - (i + length sep) < length s" by linarith
  then show "((drop (i + length sep) s, sep), (s, sep)) \<in> measure (\<lambda>(s, sep). length s)"
    by simp
qed

declare split.simps [simp del]

text \<open>The commands that list the running processes.\<close>

definition ProcessExecutionMap :: "platform \<Rightarrow> string" where
  "ProcessExecutionMap pf =
     (case pf of
        Darwin \<Rightarrow> ''ps ax -o comm=''
      | Linux \<Rightarrow> ''ps -eo comm --sort=comm''
      | Win32 \<Rightarrow> ''wmic process where '' @ [CHR 0x22] @ ''executablepath is not null''
                   @ [CHR 0x22] @ '' get executablepath'')"

definition winExecBackup :: string where
  "winExecBackup =
     ''powershell -NoProfile -Command '' @ [CHR 0x22] @ ''Get-CimInstance -Query ''
     @ [CHR 0x5C, CHR 0x22]
     @ ''select executablepath from win32_process where executablepath is not null''
     @ [CHR 0x5C, CHR 0x22] @ '' | % { $_.ExecutablePath }'' @ [CHR 0x22]"

text \<open>
  What the editor table gives for a name. The tables are object literals, so a name that
  is not an entry but is a property of \<open>Object.prototype\<close> reads as a value that is
  neither null nor a list of paths.
\<close>

datatype custom = Paths "string list" | Inherited

definition objectPrototypeKeys :: "string list" where
  "objectPrototypeKeys =
     [''constructor'', ''__defineGetter__'', ''__defineSetter__'', ''hasOwnProperty'',
      ''__lookupGetter__'', ''__lookupSetter__'', ''isPrototypeOf'',
      ''propertyIsEnumerable'', ''toString'', ''valueOf'', ''__proto__'',
      ''toLocaleString'']"

definition getEditorByCustom :: "env \<Rightarrow> string \<Rightarrow> custom option" where
  "getEditorByCustom e editor =
     (case map_of (COMMON_EDITOR_PROCESS_MAP e (platform e)) editor of
        Some paths \<Rightarrow> Some (Paths paths)
      | None \<Rightarrow> if editor \<in> set objectPrototypeKeys then Some Inherited else None)"

text \<open>
  What the program does to the outside, in the order it does it: the commands it runs to
  list the processes, the signal to a child process, the start of a child process (by
  \<open>exec\<close> on Windows, by \<open>spawn\<close> elsewhere), a call of the error callback, a line
  printed to the console. Child processes are numbered.
\<close>

datatype event =
    ExecSync string
  | Kill nat string
  | Exec nat string
  | Spawn nat string "string list"
  | OnError string string
  | ConsoleLog string

text \<open>JavaScript truthiness of an optional string: undefined and the empty string fail.\<close>

fun truthyStr :: "string option \<Rightarrow> string option" where
  "truthyStr None = None"
| "truthyStr (Some s) = (if s = [] then None else Some s)"

text \<open>
  One round of the loop over the table of editors: is this editor running? The result is
  the pair \<open>(runningEditor, editor)\<close>, both empty when it is not.
\<close>

definition detect :: "env \<Rightarrow> string \<Rightarrow> string list \<Rightarrow> string \<times> string \<Rightarrow> string \<times> string" where
  "detect e output runningProcesses entry =
     (case entry of (editorName, command) \<Rightarrow>
      (case platform e of
         Win32 \<Rightarrow>
           (case find (\<lambda>p. basename Win32 p = editorName) runningProcesses of
              Some processPath \<Rightarrow>
                if processPath \<noteq> [] then (basename Win32 processPath, processPath)
                else ([], [])
            | None \<Rightarrow> ([], []))
       | Darwin \<Rightarrow>
           (case find (\<lambda>p. endsWith p editorName) runningProcesses of
              Some runningProcess \<Rightarrow>
                if runningProcess \<noteq> [] then
                  (editorName,
                   if includesStr command ''/''
                   then replace runningProcess editorName [] @ command
                   else command)
                else ([], [])
            | None \<Rightarrow> ([], []))
       | Linux \<Rightarrow>
           if indexOf output editorName \<noteq> None then (editorName, command)
           else ([], [])))"

text \<open>
  The loop over the table: it returns the editor of a running preferred entry
  (\<open>Found\<close>), or ends with the first running editor it met, if any (\<open>Finished\<close>);
  \<open>customEditors?.includes\<close> throws a TypeError when \<open>customEditors\<close> is not a
  list (\<open>Threw\<close>).
\<close>

datatype scan = Found string | Threw | Finished "string option"

fun scanEditors ::
  "env \<Rightarrow> custom option \<Rightarrow> string \<Rightarrow> string list \<Rightarrow> string option \<Rightarrow> (string \<times> string) list \<Rightarrow> scan"
where
  "scanEditors e customEditors output running first [] = Finished first"
| "scanEditors e customEditors output running first (entry # rest) =
     (case detect e output running entry of (runningEditor, editor) \<Rightarrow>
        if runningEditor \<noteq> [] \<and> editor \<noteq> [] then
          (case customEditors of
             Some Inherited \<Rightarrow> Threw
           | Some (Paths paths) \<Rightarrow>
               if runningEditor \<in> set paths then Found editor
               else scanEditors e customEditors output running
                      (if first = None then Some editor else first) rest
           | None \<Rightarrow>
               scanEditors e customEditors output running
                 (if first = None then Some editor else first) rest)
        else scanEditors e customEditors output running first rest)"

definition scanOutput :: "env \<Rightarrow> custom option \<Rightarrow> string \<Rightarrow> string option" where
  "scanOutput e customEditors output =
     (let runningProcesses =
            map trim (split output (if platform e = Win32 then [CHR 0x0D, CHR 0x0A]
                                    else [CHR 0x0A]))
      in case scanEditors e customEditors output runningProcesses None
                (COMMON_EDITORS_MAP e (platform e)) of
           Found editor \<Rightarrow> Some editor
         | Threw \<Rightarrow> None
         | Finished first \<Rightarrow> first)"

text \<open>
  The \<open>try\<close> block of \<open>guessEditor\<close>: the editor it returns, or \<open>None\<close> when it
  ends without a return or by an exception, with the commands it ran.
\<close>

definition fromProcesses :: "env \<Rightarrow> custom option \<Rightarrow> string option \<times> event list" where
  "fromProcesses e customEditors =
     (let isWin32 = (platform e = Win32);
          execution = ProcessExecutionMap (platform e);
          chcp = (if isWin32 then [ExecSync ''chcp 65001''] else [])
      in case execSync e execution of
           Some output \<Rightarrow> (scanOutput e customEditors output, chcp @ [ExecSync execution])
         | None \<Rightarrow>
             if isWin32 then
               (case execSync e winExecBackup of
                  Some output \<Rightarrow>
                    (scanOutput e customEditors output,
                     chcp @ [ExecSync execution, ExecSync winExecBackup])
                | None \<Rightarrow> (None, chcp @ [ExecSync execution, ExecSync winExecBackup]))
             else (scanOutput e customEditors [], chcp @ [ExecSync execution]))"

text \<open>
  An override from the environment or from .env.local: a name of the table gives the
  preferred process names (\<open>Inr\<close>), any other name is returned as it is (\<open>Inl\<close>).
\<close>

definition checkOverride :: "env \<Rightarrow> string \<Rightarrow> string + custom option" where
  "checkOverride e name =
     (case getEditorByCustom e name of Some c \<Rightarrow> Inr (Some c) | None \<Rightarrow> Inl name)"

text \<open>
  \<open>guessEditor\<close> returns an array of one element at every return; the model returns
  that element (\<open>None\<close> is null) and the commands that were run.
\<close>

definition guessEditor :: "env \<Rightarrow> string option \<Rightarrow> string option \<times> event list" where
  "guessEditor e editor' =
     (case (case truthyStr (env_CODE_EDITOR e) of
              Some name \<Rightarrow> checkOverride e name
            | None \<Rightarrow> Inr None) of
        Inl literal \<Rightarrow> (Some literal, [])
      | Inr custom1 \<Rightarrow>
          (case (case dotenv_local e of
                   Some envConfig \<Rightarrow>
                     if custom1 = None then
                       (case truthyStr (map_of envConfig ''CODE_EDITOR'') of
                          Some name \<Rightarrow> checkOverride e name
                        | None \<Rightarrow> Inr custom1)
                     else Inr custom1
                 | None \<Rightarrow> Inr custom1) of
             Inl literal \<Rightarrow> (Some literal, [])
           | Inr custom2 \<Rightarrow>
               (let customEditors =
                      (case truthyStr editor' of
                         Some name \<Rightarrow>
                           if custom2 = None then
                             (case getEditorByCustom e name of
                                Some c \<Rightarrow> Some c
                              | None \<Rightarrow> custom2)
                           else custom2
                       | None \<Rightarrow> custom2)
                in case fromProcesses e customEditors of
                     (Some editor, evs) \<Rightarrow> (Some editor, evs)
                   | (None, evs) \<Rightarrow>
                       (case truthyStr (env_VISUAL e) of
                          Some v \<Rightarrow> (Some v, evs)
                        | None \<Rightarrow> (truthyStr (env_EDITOR e), evs)))))"

section \<open>Launching the editor (index.ts)\<close>

definition isTerminalEditor :: "string \<Rightarrow> bool" where
  "isTerminalEditor editor = (editor = ''vim'' \<or> editor = ''emacs'' \<or> editor = ''nano'')"

text \<open>
  \<open>JSON_parse\<close> gives \<open>None\<close> where \<open>JSON.parse\<close> throws or yields null; both make
  \<open>getEnvFormatPath\<close> return null.
\<close>

definition getEnvFormatPath :: "env \<Rightarrow> format option" where
  "getEnvFormatPath e =
     (case truthyStr (env_CODE_INSPECTOR_FORMAT_PATH e) of
        Some v \<Rightarrow> JSON_parse e v
      | None \<Rightarrow>
          (case dotenv_local e of
             Some envConfig \<Rightarrow>
               (case truthyStr (map_of envConfig ''CODE_INSPECTOR_FORMAT_PATH'') of
                  Some v \<Rightarrow> JSON_parse e v
                | None \<Rightarrow> None)
           | None \<Rightarrow> None))"

definition getOpenWindowParams :: "string option \<Rightarrow> string" where
  "getOpenWindowParams ideOpenMethod =
     (if ideOpenMethod = Some ''reuse'' then ''-r''
      else if ideOpenMethod = Some ''new'' then ''-n''
      else [])"

text \<open>
  The parameter object of \<open>launchIDE\<close>. \<open>onError\<close> tells whether a callback was
  given; a call of the callback is the event \<open>OnError\<close>.
\<close>

record launch_params =
  file' :: string
  line :: "int option"
  column :: "int option"
  editor :: "string option"
  method' :: "string option"
  format :: "format option"
  onError :: bool

text \<open>
  The module variable \<open>_childProcess\<close>, and the number the next child process gets.
  The handlers that \<open>launchIDE\<close> registers for the exit and the error of the child
  run after the call has returned; they are not part of the call.
\<close>

record state =
  childProcess :: "nat option"
  nextChild :: nat

definition escapeChars :: string where
  "escapeChars = ''&|<>,;=^''"

definition escapeCmdArgs :: "string \<Rightarrow> string" where
  "escapeCmdArgs cmdArgs =
     concat (map (\<lambda>c. if c \<in> set escapeChars then [CHR ''^'', c] else [c]) cmdArgs)"

definition doubleQuoteIfNeeded :: "string \<Rightarrow> string" where
  "doubleQuoteIfNeeded str =
     (if includesStr str ''^'' then [CHR ''^'', CHR 0x22] @ str @ [CHR ''^'', CHR 0x22]
      else if includesStr str '' '' then [CHR 0x22] @ str @ [CHR 0x22]
      else str)"

fun join :: "string \<Rightarrow> string list \<Rightarrow> string" where
  "join sep [] = []"
| "join sep [x] = x"
| "join sep (x # y # ys) = x @ sep @ join sep (y # ys)"

definition launchCommand :: "string \<Rightarrow> string list \<Rightarrow> string" where
  "launchCommand ed args =
     join '' '' (map doubleQuoteIfNeeded (ed # map escapeCmdArgs args))"

text \<open>The text printed when no editor is recognised and no callback was given.\<close>

definition recognizeFailedText :: "env \<Rightarrow> string" where
  "recognizeFailedText e =
     ''Failed to recognize IDE automatically, add something like ''
     @ chalk_cyan e ''CODE_EDITOR=code''
     @ '' to the ''
     @ chalk_green e ''.env.local''
     @ '' file in your project folder,''
     @ '' or add ''
     @ chalk_green e (''editor: '' @ [CHR 0x22] @ ''code'' @ [CHR 0x22])
     @ '' to CodeInspectorPlugin config, ''
     @ ''and then restart the development server. Learn more: ''
     @ chalk_green e ''https://goo.gl/MMTaZt''"

definition reportUnrecognized :: "env \<Rightarrow> launch_params \<Rightarrow> event" where
  "reportUnrecognized e params =
     (if onError params
      then OnError (file' params) ''Failed to recognize IDE automatically''
      else ConsoleLog (recognizeFailedText e))"

text \<open>The path handed to the editor: under WSL a path below /mnt/ is made relative.\<close>

definition launchFile :: "env \<Rightarrow> string \<Rightarrow> string" where
  "launchFile e f =
     (if platform e = Linux \<and> startsWith f ''/mnt/''
         \<and> includesStr (toLowerCase (os_release e)) ''microsoft''
      then path_relative e f else f)"

text \<open>
  The argument list. \<open>guessEditor\<close> gives no arguments besides the editor, so the
  list starts empty.
\<close>

definition launchArgs :: "env \<Rightarrow> string \<Rightarrow> launch_params \<Rightarrow> string list" where
  "launchArgs e ed params =
     (let line' = (case line params of None \<Rightarrow> 1 | Some l \<Rightarrow> l);
          column' = (case column params of None \<Rightarrow> 1 | Some c \<Rightarrow> c);
          pathFormat' = (if truthy (getEnvFormatPath e) then getEnvFormatPath e
                         else format params)
      in if line' \<noteq> 0 then
           getArguments e
             \<lparr> processName = ed, fileName = launchFile e (file' params),
               lineNumber = Num line', colNumber = Num column', workspace = None,
               openWindowParams = getOpenWindowParams (method' params),
               pathFormat = pathFormat' \<rparr>
         else [launchFile e (file' params)])"

definition spawnEvent :: "env \<Rightarrow> nat \<Rightarrow> string \<Rightarrow> string list \<Rightarrow> event" where
  "spawnEvent e child ed args =
     (if platform e = Win32 then Exec child (launchCommand ed args)
      else Spawn child ed args)"

definition launchIDE :: "env \<Rightarrow> state \<Rightarrow> launch_params \<Rightarrow> state \<times> event list" where
  "launchIDE e st params =
     (if \<not> existsSync e (file' params) then (st, [])
      else
        (case guessEditor e (editor params) of (guessed, evs) \<Rightarrow>
           (case guessed of
              None \<Rightarrow> (st, evs @ [reportUnrecognized e params])
            | Some ed \<Rightarrow>
                if ed = [] \<or> toLowerCase ed = ''none''
                then (st, evs @ [reportUnrecognized e params])
                else
                  (st\<lparr>childProcess := Some (nextChild st),
                      nextChild := Suc (nextChild st)\<rparr>,
                   evs
                   @ (case childProcess st of
                        Some child \<Rightarrow>
                          if isTerminalEditor ed then [Kill child ''SIGKILL''] else []
                      | None \<Rightarrow> [])
                   @ [spawnEvent e (nextChild st) ed (launchArgs e ed params)]))))"

text \<open>The events of process enumeration.\<close>

fun isExecSync :: "event \<Rightarrow> bool" where
  "isExecSync (ExecSync c) = True"
| "isExecSync ev = False"

text \<open>The events that start or stop a process.\<close>

fun isKill :: "event \<Rightarrow> bool" where
  "isKill (Kill child sig) = True"
| "isKill ev = False"

fun isLaunch :: "event \<Rightarrow> bool" where
  "isLaunch (Exec child c) = True"
| "isLaunch (Spawn child c args) = True"
| "isLaunch ev = False"

section \<open>Literal substitution\<close>

text \<open>
  Substitution as the specification words it: the first occurrence of a placeholder is
  replaced by the value, character for character. It is compared with \<open>replace\<close>
  and \<open>substitute\<close> above, which follow the sources.
\<close>

definition replaceLiteral :: "string \<Rightarrow> string \<Rightarrow> string \<Rightarrow> string" where
  "replaceLiteral s pat repl =
     (case indexOf s pat of
        None \<Rightarrow> s
      | Some i \<Rightarrow> take i s @ repl @ drop (i + length pat) s)"

definition substituteLiteral :: "string \<Rightarrow> strnum \<Rightarrow> strnum \<Rightarrow> string \<Rightarrow> string" where
  "substituteLiteral f l c item =
     replaceLiteral (replaceLiteral (replaceLiteral item FormatFile f) FormatLine (toString l))
       FormatColumn (toString c)"

section \<open>Sample inputs\<close>

text \<open>
  A small instance of the editor tables and of a Linux host on which no editor is
  configured and the process list shows a shell only.
\<close>

definition sampleProcessMap :: "platform \<Rightarrow> (string \<times> string list) list" where
  "sampleProcessMap pf =
     (case pf of
        Darwin \<Rightarrow> [(''code'', [''/Visual Studio Code.app/Contents/MacOS/Electron'']),
                   (''vim'', [''vim''])]
      | Linux \<Rightarrow> [(''code'', [''code'']), (''vim'', [''vim'']), (''emacs'', [''emacs''])]
      | Win32 \<Rightarrow> [(''code'', [''Code.exe'']), (''notepad++'', [''notepad++.exe''])])"

definition sampleEditorsMap :: "platform \<Rightarrow> (string \<times> string) list" where
  "sampleEditorsMap pf =
     (case pf of
        Darwin \<Rightarrow> [(''/Visual Studio Code.app/Contents/MacOS/Electron'', ''code''),
                   (''vim'', ''vim'')]
      | Linux \<Rightarrow> [(''code'', ''code''), (''vim'', ''vim''), (''emacs'', ''emacs'')]
      | Win32 \<Rightarrow> [(''Code.exe'', ''Code.exe''), (''notepad++.exe'', ''notepad++.exe'')])"

definition sampleEnv :: env where
  "sampleEnv =
     \<lparr> platform = Linux,
       COMMON_EDITOR_PROCESS_MAP = sampleProcessMap,
       COMMON_EDITORS_MAP = sampleEditorsMap,
       env_CODE_EDITOR = None,
       env_CODE_INSPECTOR_FORMAT_PATH = None,
       env_VISUAL = None,
       env_EDITOR = None,
       dotenv_local = None,
       JSON_parse = (\<lambda>v. None),
       existsSync = (\<lambda>f. f = ''/a/b.js''),
       execSync = (\<lambda>c. Some (''COMMAND'' @ [CHR 0x0A] @ ''bash'' @ [CHR 0x0A])),
       os_release = ''6.8.0-generic'',
       path_relative = (\<lambda>f. f),
       chalk_cyan = (\<lambda>t. t),
       chalk_green = (\<lambda>t. t) \<rparr>"

definition sampleRequest :: launch_params where
  "sampleRequest =
     \<lparr> file' = ''/a/b.js'', line = Some 10, column = Some 5, editor = None,
       method' = None, format = None, onError = True \<rparr>"

definition sampleArgs :: arguments_params where
  "sampleArgs =
     \<lparr> processName = ''nano'', fileName = ''/a/b.js'', lineNumber = Num 10,
       colNumber = Num 5, workspace = None, openWindowParams = [], pathFormat = None \<rparr>"

text \<open>The Windows path \<open>C:\My Projects\a.js:1:1\<close>.\<close>

definition winPath :: string where
  "winPath = ''C:'' @ [CHR 0x5C] @ ''My Projects'' @ [CHR 0x5C] @ ''a.js:1:1''"

definition dollarFile :: string where
  "dollarFile = ''/src/$$typeof.js''"

definition idle :: state where
  "idle = \<lparr> childProcess = None, nextChild = 0 \<rparr>"


section \<open>Resolution runs commands only\<close>

lemma fromProcesses_events:
  "fromProcesses e cs = (g, evs) \<Longrightarrow> list_all isExecSync evs"
  by (auto simp: fromProcesses_def Let_def split: option.splits if_splits)

lemma guessEditor_events:
  "guessEditor e ed = (g, evs) \<Longrightarrow> list_all isExecSync evs"
  unfolding guessEditor_def
  by (auto simp: Let_def split: option.splits sum.splits if_splits prod.splits
      dest: fromProcesses_events)

text \<open>An editor that resolution returns is never the empty string.\<close>

lemma truthyStr_nonempty: "truthyStr x = Some s \<Longrightarrow> s \<noteq> []"
  by (cases x) (auto split: if_splits)

lemma scanEditors_nonempty:
  assumes "\<forall>x. first = Some x \<longrightarrow> x \<noteq> []"
  shows "(scanEditors e cs out running first entries = Found ed \<longrightarrow> ed \<noteq> [])
       \<and> (scanEditors e cs out running first entries = Finished (Some ed) \<longrightarrow> ed \<noteq> [])"
  using assms
proof (induction entries arbitrary: first)
  case Nil
  then show ?case by simp
next
  case (Cons entry rest)
  obtain r x where d: "detect e out running entry = (r, x)" by (cases "detect e out running entry")
  show ?case
  proof (cases "r \<noteq> [] \<and> x \<noteq> []")
    case False
    with d Cons show ?thesis by auto
  next
    case True
    have n: "\<forall>y. (if first = None then Some x else first) = Some y \<longrightarrow> y \<noteq> []"
      using True Cons.prems by auto
    note ih = Cons.IH [OF n]
    show ?thesis
    proof (cases cs)
      case None
      with d True ih show ?thesis by simp
    next
      case (Some c)
      with d True ih show ?thesis by (cases c) auto
    qed
  qed
qed

lemma scanOutput_nonempty: "scanOutput e cs out = Some ed \<Longrightarrow> ed \<noteq> []"
  unfolding scanOutput_def Let_def
  using scanEditors_nonempty [of None e cs out _ _ ed]
  by (auto split: scan.splits)

lemma fromProcesses_nonempty: "fromProcesses e cs = (Some ed, evs) \<Longrightarrow> ed \<noteq> []"
  by (auto simp: fromProcesses_def Let_def split: option.splits if_splits
      dest: scanOutput_nonempty)

lemma checkOverride_literal: "checkOverride e name = Inl l \<Longrightarrow> l = name"
  by (auto simp: checkOverride_def split: option.splits)

lemma guessEditor_nonempty: "guessEditor e x = (Some ed, evs) \<Longrightarrow> ed \<noteq> []"
  unfolding guessEditor_def
  by (auto simp: Let_def split: option.splits sum.splits if_splits prod.splits
      dest: fromProcesses_nonempty truthyStr_nonempty checkOverride_literal)

lemma execSync_not_launch: "list_all isExecSync evs \<Longrightarrow> \<not> list_ex isLaunch evs"
  by (induction evs) (auto elim: isExecSync.elims)

lemma execSync_not_kill: "list_all isExecSync evs \<Longrightarrow> \<not> list_ex isKill evs"
  by (induction evs) (auto elim: isExecSync.elims)

lemma guess_sample:
  "guessEditor sampleEnv None = (None, [ExecSync ''ps -eo comm --sort=comm''])"
  by code_simp

section \<open>A missing file\<close>

text \<open>
  Claim C8. When the file of a request does not exist, \<open>launchIDE\<close> returns at once:
  the tracked process is unchanged and nothing happens: no process is started, the
  callback is not called, nothing is printed.
\<close>

theorem C8_missing_file_is_silent:
  "\<not> existsSync e (file' p) \<Longrightarrow> launchIDE e st p = (st, [])"
  by (simp add: launchIDE_def)

theorem C8_missing_file_witness:
  "\<not> existsSync sampleEnv (file' (sampleRequest\<lparr>file' := ''/a/missing.js''\<rparr>))
   \<and> launchIDE sampleEnv idle (sampleRequest\<lparr>file' := ''/a/missing.js''\<rparr>) = (idle, [])"
  using C8_missing_file_is_silent
    [of sampleEnv "sampleRequest\<lparr>file' := ''/a/missing.js''\<rparr>" idle]
  by (simp add: sampleEnv_def sampleRequest_def)


section \<open>The editor name "none"\<close>

lemma toLowerCase_NoNe: "toLowerCase ''NoNe'' = ''none''"
  by (simp add: toLowerCase_def toLowerChar_def upperAZ_def lowerAZ_def)

lemma guess_NoNe:
  "guessEditor (sampleEnv\<lparr>env_CODE_EDITOR := Some ''NoNe''\<rparr>) None = (Some ''NoNe'', [])"
  by (simp add: guessEditor_def sampleEnv_def checkOverride_def getEditorByCustom_def
      sampleProcessMap_def objectPrototypeKeys_def)

text \<open>
  Claim C10. When the file exists and resolution gives the name "none" in any letter
  case, \<open>launchIDE\<close> does exactly what it does when resolution gives null: after the
  commands of the resolution, the callback is called with the message
  "Failed to recognize IDE automatically" when one was given; otherwise the instructions
  are printed, which say to add CODE_EDITOR=code to the file .env.local or the editor to
  the configuration of the plugin. The tracked process is unchanged and no process is
  started.
\<close>

theorem C10_none_is_unrecognized:
  assumes "existsSync e (file' p)"
    and "guessEditor e (editor p) = (g, evs)"
    and "g = None \<or> (\<exists>ed. g = Some ed \<and> toLowerCase ed = ''none'')"
  shows "launchIDE e st p =
           (st, evs @ [if onError p
                       then OnError (file' p) ''Failed to recognize IDE automatically''
                       else ConsoleLog
                         (''Failed to recognize IDE automatically, add something like ''
                          @ chalk_cyan e ''CODE_EDITOR=code''
                          @ '' to the ''
                          @ chalk_green e ''.env.local''
                          @ '' file in your project folder, or add ''
                          @ chalk_green e (''editor: '' @ [CHR 0x22] @ ''code'' @ [CHR 0x22])
                          @ '' to CodeInspectorPlugin config, and then restart the development server. Learn more: ''
                          @ chalk_green e ''https://goo.gl/MMTaZt'')])
         \<and> \<not> list_ex isLaunch (snd (launchIDE e st p))"
proof -
  have r: "launchIDE e st p = (st, evs @ [reportUnrecognized e p])"
    using assms by (auto simp: launchIDE_def)
  have "\<not> list_ex isLaunch evs"
    using assms(2) by (intro execSync_not_launch guessEditor_events)
  then have "\<not> list_ex isLaunch (snd (launchIDE e st p))"
    by (simp add: r reportUnrecognized_def)
  with r show ?thesis by (simp add: reportUnrecognized_def recognizeFailedText_def)
qed

text \<open>
  The witness: the name "NoNe" with a callback and without one, and a resolution that
  gives null.
\<close>

theorem C10_none_witness:
  "guessEditor (sampleEnv\<lparr>env_CODE_EDITOR := Some ''NoNe''\<rparr>) (editor sampleRequest)
     = (Some ''NoNe'', [])
   \<and> toLowerCase ''NoNe'' = ''none''
   \<and> launchIDE (sampleEnv\<lparr>env_CODE_EDITOR := Some ''NoNe''\<rparr>) idle sampleRequest =
       (idle, [OnError ''/a/b.js'' ''Failed to recognize IDE automatically''])
   \<and> launchIDE (sampleEnv\<lparr>env_CODE_EDITOR := Some ''NoNe''\<rparr>) idle
         (sampleRequest\<lparr>onError := False\<rparr>) =
       (idle, [ConsoleLog
          (''Failed to recognize IDE automatically, add something like CODE_EDITOR=code''
           @ '' to the .env.local file in your project folder, or add editor: ''
           @ [CHR 0x22] @ ''code'' @ [CHR 0x22]
           @ '' to CodeInspectorPlugin config, and then restart the development server.''
           @ '' Learn more: https://goo.gl/MMTaZt'')])
   \<and> launchIDE sampleEnv idle sampleRequest =
       (idle, [ExecSync ''ps -eo comm --sort=comm'',
               OnError ''/a/b.js'' ''Failed to recognize IDE automatically''])"
  using C10_none_is_unrecognized
      [of "sampleEnv\<lparr>env_CODE_EDITOR := Some ''NoNe''\<rparr>" sampleRequest "Some ''NoNe''" "[]" idle]
    C10_none_is_unrecognized
      [of "sampleEnv\<lparr>env_CODE_EDITOR := Some ''NoNe''\<rparr>" "sampleRequest\<lparr>onError := False\<rparr>"
          "Some ''NoNe''" "[]" idle]
    C10_none_is_unrecognized
      [of sampleEnv sampleRequest None "[ExecSync ''ps -eo comm --sort=comm'']" idle]
    guess_NoNe guess_sample toLowerCase_NoNe
  by (simp add: sampleEnv_def sampleRequest_def)

section \<open>Terminal editors\<close>

lemma isTerminalEditor_resolved:
  "isTerminalEditor ed \<Longrightarrow> ed \<noteq> [] \<and> toLowerCase ed \<noteq> ''none''"
  by (auto simp: isTerminalEditor_def toLowerCase_def toLowerChar_def upperAZ_def lowerAZ_def)

lemma guess_nano:
  "guessEditor (sampleEnv\<lparr>env_VISUAL := Some ''nano''\<rparr>) None =
     (Some ''nano'', [ExecSync ''ps -eo comm --sort=comm''])"
  by code_simp

lemma guess_code:
  "guessEditor (sampleEnv\<lparr>env_VISUAL := Some ''code''\<rparr>) None =
     (Some ''code'', [ExecSync ''ps -eo comm --sort=comm''])"
  by code_simp

lemma args_nano:
  "launchArgs (sampleEnv\<lparr>env_VISUAL := Some ''nano''\<rparr>) ''nano'' sampleRequest = [''/a/b.js'']"
  by code_simp

lemma lower_code: "toLowerCase ''code'' \<noteq> ''none''"
  by code_simp

text \<open>
  Claim C3, as stated, fails in its last clause: every process that is started is
  tracked, whatever the editor, and the test before the signal looks at the new editor
  only. The editor code is started as process 0 and tracked; the next launch resolves
  vim and kills process 0.
\<close>

theorem C3_tracked_editor_counterexample:
  "\<not> isTerminalEditor ''code''
   \<and> launchIDE (sampleEnv\<lparr>env_VISUAL := Some ''code''\<rparr>) idle sampleRequest =
       (\<lparr>childProcess = Some 0, nextChild = 1\<rparr>,
        [ExecSync ''ps -eo comm --sort=comm'', Spawn 0 ''code'' [''-g'', ''/a/b.js:10:5'']])
   \<and> launchIDE (sampleEnv\<lparr>env_VISUAL := Some ''vim''\<rparr>)
         \<lparr>childProcess = Some 0, nextChild = 1\<rparr> sampleRequest =
       (\<lparr>childProcess = Some 1, nextChild = 2\<rparr>,
        [ExecSync ''ps -eo comm --sort=comm'', Kill 0 ''SIGKILL'',
         Spawn 1 ''vim'' [''+call cursor(10, 5)'', ''/a/b.js'']])"
  by code_simp

text \<open>
  Claim C3, amended. Let resolution give the editor \<open>ed\<close>. When the file exists,
  \<open>ed\<close> is one of vim, emacs and nano, and a child process is tracked, the events of
  the call are those of the resolution, then SIGKILL to the tracked process, whatever
  editor it runs, then the start of the new process. When \<open>ed\<close> is none of the three,
  the call kills no process. Every launch, of a terminal editor or not, leaves the
  process it started as the tracked one.
\<close>

theorem C3_terminal_editor_kill:
  assumes "guessEditor e (editor p) = (Some ed, evs)"
  shows "(existsSync e (file' p) \<and> isTerminalEditor ed \<and> childProcess st = Some child \<longrightarrow>
            snd (launchIDE e st p) =
              evs @ [Kill child ''SIGKILL'',
                     spawnEvent e (nextChild st) ed (launchArgs e ed p)])
         \<and> (\<not> isTerminalEditor ed \<longrightarrow> \<not> list_ex isKill (snd (launchIDE e st p)))
         \<and> (existsSync e (file' p) \<and> toLowerCase ed \<noteq> ''none'' \<longrightarrow>
              childProcess (fst (launchIDE e st p)) = Some (nextChild st))"
proof (intro conjI impI)
  assume a: "existsSync e (file' p) \<and> isTerminalEditor ed \<and> childProcess st = Some child"
  then have "ed \<noteq> [] \<and> toLowerCase ed \<noteq> ''none''"
    by (simp add: isTerminalEditor_resolved)
  with a assms show "snd (launchIDE e st p) =
      evs @ [Kill child ''SIGKILL'', spawnEvent e (nextChild st) ed (launchArgs e ed p)]"
    by (simp add: launchIDE_def)
next
  assume n: "\<not> isTerminalEditor ed"
  have k: "\<not> list_ex isKill evs"
    using assms by (intro execSync_not_kill guessEditor_events)
  show "\<not> list_ex isKill (snd (launchIDE e st p))"
    using assms n k
    by (auto simp: launchIDE_def reportUnrecognized_def spawnEvent_def split: option.splits)
next
  assume t: "existsSync e (file' p) \<and> toLowerCase ed \<noteq> ''none''"
  have "ed \<noteq> []" using assms by (rule guessEditor_nonempty)
  with t assms show "childProcess (fst (launchIDE e st p)) = Some (nextChild st)"
    by (simp add: launchIDE_def)
qed

text \<open>
  The witness: a second launch of nano while the first (process 0) is tracked, and a
  launch of code in the same state.
\<close>

theorem C3_terminal_editor_witness:
  "isTerminalEditor ''nano'' \<and> \<not> isTerminalEditor ''code''
   \<and> snd (launchIDE (sampleEnv\<lparr>env_VISUAL := Some ''nano''\<rparr>)
         \<lparr>childProcess = Some 0, nextChild = 1\<rparr> sampleRequest) =
       [ExecSync ''ps -eo comm --sort=comm'', Kill 0 ''SIGKILL'',
        Spawn 1 ''nano'' [''/a/b.js'']]
   \<and> \<not> list_ex isKill (snd (launchIDE (sampleEnv\<lparr>env_VISUAL := Some ''code''\<rparr>)
         \<lparr>childProcess = Some 0, nextChild = 1\<rparr> sampleRequest))
   \<and> childProcess (fst (launchIDE (sampleEnv\<lparr>env_VISUAL := Some ''code''\<rparr>)
         \<lparr>childProcess = Some 0, nextChild = 1\<rparr> sampleRequest)) = Some 1"
  using C3_terminal_editor_kill
      [of "sampleEnv\<lparr>env_VISUAL := Some ''nano''\<rparr>" sampleRequest "''nano''"
          "[ExecSync ''ps -eo comm --sort=comm'']" "\<lparr>childProcess = Some 0, nextChild = 1\<rparr>" 0]
    C3_terminal_editor_kill
      [of "sampleEnv\<lparr>env_VISUAL := Some ''code''\<rparr>" sampleRequest "''code''"
          "[ExecSync ''ps -eo comm --sort=comm'']" "\<lparr>childProcess = Some 0, nextChild = 1\<rparr>" 0]
    guess_nano guess_code args_nano lower_code
  by (simp add: sampleEnv_def sampleRequest_def isTerminalEditor_def spawnEvent_def)

section \<open>The Windows command line\<close>

lemma includesStr_single: "includesStr s [c] \<longleftrightarrow> c \<in> set s"
  by (induction s) (auto simp: includesStr_def)

lemma escapeCmdArgs_caret:
  "CHR ''^'' \<in> set (escapeCmdArgs a) \<longleftrightarrow> (\<exists>c \<in> set a. c \<in> set escapeChars)"
  by (induction a) (auto simp: escapeCmdArgs_def escapeChars_def)

text \<open>
  Claim C7. On Windows the command line is the editor and the escaped arguments, each
  passed through \<open>doubleQuoteIfNeeded\<close>, joined by spaces. An escaped argument with a
  caret is wrapped in \<open>^"\<close> ... \<open>^"\<close>; one without a caret and with a space is wrapped
  in double quotes; any other is unchanged; none is wrapped in both ways. The argument
  \<open>C:\My Projects\a.js:1:1\<close> is wrapped in double quotes.
\<close>

theorem C7_windows_quoting:
  "launchCommand ed args =
     join '' '' (doubleQuoteIfNeeded ed # map (\<lambda>a. doubleQuoteIfNeeded (escapeCmdArgs a)) args)
   \<and> (CHR ''^'' \<in> set (escapeCmdArgs a) \<longrightarrow>
        doubleQuoteIfNeeded (escapeCmdArgs a) =
          [CHR ''^'', CHR 0x22] @ escapeCmdArgs a @ [CHR ''^'', CHR 0x22])
   \<and> (CHR ''^'' \<notin> set (escapeCmdArgs a) \<and> CHR '' '' \<in> set (escapeCmdArgs a) \<longrightarrow>
        doubleQuoteIfNeeded (escapeCmdArgs a) = [CHR 0x22] @ escapeCmdArgs a @ [CHR 0x22])
   \<and> (CHR ''^'' \<notin> set (escapeCmdArgs a) \<and> CHR '' '' \<notin> set (escapeCmdArgs a) \<longrightarrow>
        doubleQuoteIfNeeded (escapeCmdArgs a) = escapeCmdArgs a)
   \<and> doubleQuoteIfNeeded (escapeCmdArgs a) \<noteq>
        [CHR 0x22] @ ([CHR ''^'', CHR 0x22] @ escapeCmdArgs a @ [CHR ''^'', CHR 0x22]) @ [CHR 0x22]
   \<and> doubleQuoteIfNeeded (escapeCmdArgs a) \<noteq>
        [CHR ''^'', CHR 0x22] @ ([CHR 0x22] @ escapeCmdArgs a @ [CHR 0x22]) @ [CHR ''^'', CHR 0x22]
   \<and> doubleQuoteIfNeeded (escapeCmdArgs winPath) = [CHR 0x22] @ winPath @ [CHR 0x22]"
proof -
  have l: "length (doubleQuoteIfNeeded x) \<le> length x + 4" for x
    by (simp add: doubleQuoteIfNeeded_def)
  have w: "escapeCmdArgs winPath = winPath"
    by (simp add: escapeCmdArgs_def escapeChars_def winPath_def)
  have "doubleQuoteIfNeeded winPath = [CHR 0x22] @ winPath @ [CHR 0x22]"
    unfolding doubleQuoteIfNeeded_def includesStr_single by (simp add: winPath_def)
  with w have ex: "doubleQuoteIfNeeded (escapeCmdArgs winPath) = [CHR 0x22] @ winPath @ [CHR 0x22]"
    by simp
  have n1: "doubleQuoteIfNeeded x \<noteq>
      [CHR 0x22] @ ([CHR ''^'', CHR 0x22] @ x @ [CHR ''^'', CHR 0x22]) @ [CHR 0x22]" for x
  proof
    assume "doubleQuoteIfNeeded x =
      [CHR 0x22] @ ([CHR ''^'', CHR 0x22] @ x @ [CHR ''^'', CHR 0x22]) @ [CHR 0x22]"
    then have "length (doubleQuoteIfNeeded x) = length x + 6" by simp
    with l [of x] show False by simp
  qed
  have n2: "doubleQuoteIfNeeded x \<noteq>
      [CHR ''^'', CHR 0x22] @ ([CHR 0x22] @ x @ [CHR 0x22]) @ [CHR ''^'', CHR 0x22]" for x
  proof
    assume "doubleQuoteIfNeeded x =
      [CHR ''^'', CHR 0x22] @ ([CHR 0x22] @ x @ [CHR 0x22]) @ [CHR ''^'', CHR 0x22]"
    then have "length (doubleQuoteIfNeeded x) = length x + 6" by simp
    with l [of x] show False by simp
  qed
  have c: "launchCommand ed args =
     join '' '' (doubleQuoteIfNeeded ed # map (\<lambda>a. doubleQuoteIfNeeded (escapeCmdArgs a)) args)"
    by (simp add: launchCommand_def comp_def)
  have q: "(CHR ''^'' \<in> set x \<longrightarrow>
        doubleQuoteIfNeeded x = [CHR ''^'', CHR 0x22] @ x @ [CHR ''^'', CHR 0x22])
   \<and> (CHR ''^'' \<notin> set x \<and> CHR '' '' \<in> set x \<longrightarrow>
        doubleQuoteIfNeeded x = [CHR 0x22] @ x @ [CHR 0x22])
   \<and> (CHR ''^'' \<notin> set x \<and> CHR '' '' \<notin> set x \<longrightarrow> doubleQuoteIfNeeded x = x)" for x
    unfolding doubleQuoteIfNeeded_def includesStr_single by simp
  from c q [of "escapeCmdArgs a"] n1 [of "escapeCmdArgs a"] n2 [of "escapeCmdArgs a"] ex
  show ?thesis by blast
qed

theorem C7_windows_quoting_witness:
  "CHR ''^'' \<in> set (escapeCmdArgs ''a&b c'')
   \<and> doubleQuoteIfNeeded (escapeCmdArgs ''a&b c'') = [CHR ''^'', CHR 0x22] @ ''a^&b c'' @ [CHR ''^'', CHR 0x22]
   \<and> CHR ''^'' \<notin> set (escapeCmdArgs ''b c'') \<and> CHR '' '' \<in> set (escapeCmdArgs ''b c'')
   \<and> doubleQuoteIfNeeded (escapeCmdArgs ''b c'') = [CHR 0x22] @ ''b c'' @ [CHR 0x22]
   \<and> doubleQuoteIfNeeded (escapeCmdArgs ''bc'') = ''bc''"
  using C7_windows_quoting [of "''ed''" "[]" "''a&b c''"]
    C7_windows_quoting [of "''ed''" "[]" "''b c''"]
    C7_windows_quoting [of "''ed''" "[]" "''bc''"]
  by (simp add: escapeCmdArgs_def escapeChars_def)


section \<open>The format of an editor without a rule\<close>

lemma getSubstitution_plain: "CHR 0x24 \<notin> set r \<Longrightarrow> getSubstitution m s p r = r"
  by (induction m s p r rule: getSubstitution.induct) auto

lemma replace_absent: "\<not> includesStr s pat \<Longrightarrow> replace s pat r = s"
  by (simp add: replace_def includesStr_def)

lemma replace_whole: "CHR 0x24 \<notin> set r \<Longrightarrow> pat \<noteq> [] \<Longrightarrow> replace pat pat r = r"
  by (cases pat) (simp_all add: replace_def getSubstitution_plain)

lemma substitute_file_only:
  assumes "CHR 0x24 \<notin> set f" "\<not> includesStr f FormatLine" "\<not> includesStr f FormatColumn"
  shows "substitute f l c ''{file}'' = f"
proof -
  have "replace ''{file}'' FormatFile f = f"
    using assms(1) replace_whole [of f "''{file}''"] by (simp add: FormatFile_def)
  with assms(2,3) show ?thesis
    by (simp add: substitute_def replace_absent)
qed

lemma sampleArgs_nano:
  "getFormatByEditor (getEditorBasenameByProcessName sampleEnv (processName sampleArgs))
      (openWindowParams sampleArgs) (workspace sampleArgs) = FStr []"
  by code_simp

lemma sampleArgs_plain: "CHR 0x24 \<notin> set (fileName sampleArgs) \<and> \<not> includesStr (fileName sampleArgs) FormatLine
              \<and> \<not> includesStr (fileName sampleArgs) FormatColumn"
  by code_simp

text \<open>
  Claim C1, as stated, fails: for the editor nano, which has no rule, and no override,
  the result is the file alone, not file:line:column.
\<close>

theorem C1_default_format_counterexample:
  "getFormatByEditor (getEditorBasenameByProcessName sampleEnv (processName sampleArgs))
      (openWindowParams sampleArgs) (workspace sampleArgs) = FStr []
   \<and> pathFormat sampleArgs = None
   \<and> getArguments sampleEnv sampleArgs = [''/a/b.js'']
   \<and> getArguments sampleEnv sampleArgs \<noteq> [''/a/b.js:10:5'']"
  by code_simp

text \<open>
  Claim C1, amended. When \<open>getFormatByEditor\<close> has no rule for the editor (it
  returns the empty string) and there is no override, or a falsy one, the format is
  \<open>{file}\<close>: \<open>getArguments\<close> returns what \<open>formatOpenPath\<close> makes of \<open>{file}\<close>,
  which is the one-element list of the file whenever the file name has no dollar sign and
  contains neither \<open>{line}\<close> nor \<open>{column}\<close>.
\<close>

theorem C1_default_format:
  assumes "getFormatByEditor (getEditorBasenameByProcessName e (processName p))
             (openWindowParams p) (workspace p) = FStr []"
    and "\<not> truthy (pathFormat p)"
  shows "getArguments e p =
           formatOpenPath (fileName p) (lineNumber p) (colNumber p) (FStr ''{file}'')
         \<and> (CHR 0x24 \<notin> set (fileName p) \<and> \<not> includesStr (fileName p) FormatLine
              \<and> \<not> includesStr (fileName p) FormatColumn \<longrightarrow>
            getArguments e p = [fileName p])"
  using assms by (simp add: getArguments_def Let_def substitute_file_only)

theorem C1_default_format_witness:
  "getArguments sampleEnv sampleArgs = [''/a/b.js'']"
proof -
  have h: "\<not> truthy (pathFormat sampleArgs)"
    by (simp add: sampleArgs_def)
  from C1_default_format [OF sampleArgs_nano h] sampleArgs_plain
  have "getArguments sampleEnv sampleArgs = [fileName sampleArgs]"
    by blast
  then show ?thesis by (simp add: sampleArgs_def)
qed

section \<open>A custom format\<close>

lemma vim_override: "formatOpenPath ''/a/b.js'' (Num 10) (Num 5) (FArr [''{file}'', ''--goto'', ''{line}'']) = [''/a/b.js'', ''--goto'', ''10'']"
  by code_simp

text \<open>
  Claim C5, as stated, fails: the empty string is a string override, and with it the
  rule of the editor (here vim) is used, not the override.
\<close>

theorem C5_override_counterexample:
  "getArguments sampleEnv (sampleArgs\<lparr>processName := ''vim'', pathFormat := Some (FStr [])\<rparr>)
     = [''+call cursor(10, 5)'', ''/a/b.js'']
   \<and> formatOpenPath ''/a/b.js'' (Num 10) (Num 5) (FStr []) = [[]]
   \<and> getArguments sampleEnv (sampleArgs\<lparr>processName := ''vim'', pathFormat := Some (FStr [])\<rparr>)
     \<noteq> formatOpenPath ''/a/b.js'' (Num 10) (Num 5) (FStr [])"
  by code_simp

text \<open>
  Claim C5, amended. For every editor and every override that is truthy (a non-empty
  string, or a list, empty or not), \<open>getArguments\<close> returns exactly what
  \<open>formatOpenPath\<close> makes of the override.
\<close>

theorem C5_override_wins:
  "pathFormat p = Some fmt \<Longrightarrow> truthy (Some fmt) \<Longrightarrow>
     getArguments e p = formatOpenPath (fileName p) (lineNumber p) (colNumber p) fmt"
  by (simp add: getArguments_def Let_def)

theorem C5_override_wins_witness:
  "getArguments sampleEnv
     (sampleArgs\<lparr>processName := ''vim'',
                 pathFormat := Some (FArr [''{file}'', ''--goto'', ''{line}''])\<rparr>)
   = [''/a/b.js'', ''--goto'', ''10'']"
  using C5_override_wins
    [of "sampleArgs\<lparr>processName := ''vim'',
                     pathFormat := Some (FArr [''{file}'', ''--goto'', ''{line}''])\<rparr>"
        "FArr [''{file}'', ''--goto'', ''{line}'']" sampleEnv]
    vim_override
  by (simp add: sampleArgs_def)


section \<open>A request without a line number\<close>

lemma guess_subl:
  "guessEditor (sampleEnv\<lparr>env_CODE_EDITOR := Some ''subl''\<rparr>) None = (Some ''subl'', [])"
  by code_simp

lemma lower_subl: "toLowerCase ''subl'' \<noteq> ''none''"
  by code_simp

lemma args_subl:
  "getArguments (sampleEnv\<lparr>env_CODE_EDITOR := Some ''subl''\<rparr>)
     \<lparr> processName = ''subl'', fileName = ''/a/b.js'', lineNumber = Num 1,
       colNumber = Num 5, workspace = None, openWindowParams = [], pathFormat = None \<rparr>
   = [''/a/b.js:1:5'']"
  by code_simp

lemma sample_format_path: "getEnvFormatPath (sampleEnv\<lparr>env_CODE_EDITOR := Some ''subl''\<rparr>) = None"
  by code_simp

text \<open>
  Claim C2, as stated, fails: a request that omits the line (and the column) gets line 1
  and column 1 by the defaults of the parameter object, and the file is formatted with
  them.
\<close>

theorem C2_omitted_line_counterexample:
  "line (sampleRequest\<lparr>line := None, column := None\<rparr>) = None
   \<and> snd (launchIDE (sampleEnv\<lparr>env_CODE_EDITOR := Some ''subl''\<rparr>) idle
           (sampleRequest\<lparr>line := None, column := None\<rparr>))
       = [Spawn 0 ''subl'' [''/a/b.js:1:1'']]
   \<and> snd (launchIDE (sampleEnv\<lparr>env_CODE_EDITOR := Some ''subl''\<rparr>) idle
           (sampleRequest\<lparr>line := None, column := None\<rparr>))
       \<noteq> [Spawn 0 ''subl'' [''/a/b.js'']]"
  by code_simp

text \<open>
  Claim C2, amended. Let the file exist and resolution give an editor other than "none".
  For a request whose line number is 0 the argument list is exactly the file (after the
  WSL rewrite), with no substitution, and the process is started with it. For a request
  that omits the line, the argument list is what \<open>getArguments\<close> returns for line 1
  (and the column of the request, or 1), the process is started with that list, and the
  call does what it does for a request with line 1.
\<close>

theorem C2_line_zero:
  assumes "existsSync e (file' p)"
    and "guessEditor e (editor p) = (Some ed, evs)"
    and "toLowerCase ed \<noteq> ''none''"
  shows "(line p = Some 0 \<longrightarrow>
            launchArgs e ed p = [launchFile e (file' p)]
            \<and> last (snd (launchIDE e st p)) =
                spawnEvent e (nextChild st) ed [launchFile e (file' p)])
         \<and> (line p = None \<longrightarrow>
              (let args = getArguments e
                     \<lparr> processName = ed, fileName = launchFile e (file' p),
                       lineNumber = Num 1,
                       colNumber = Num (case column p of None \<Rightarrow> 1 | Some c \<Rightarrow> c),
                       workspace = None,
                       openWindowParams = getOpenWindowParams (method' p),
                       pathFormat = (if truthy (getEnvFormatPath e) then getEnvFormatPath e
                                     else format p) \<rparr>
               in launchArgs e ed p = args
                  \<and> last (snd (launchIDE e st p)) = spawnEvent e (nextChild st) ed args)
              \<and> launchIDE e st p = launchIDE e st (p\<lparr>line := Some 1\<rparr>))"
proof -
  have n: "ed \<noteq> []" using assms(2) by (rule guessEditor_nonempty)
  have l: "last (snd (launchIDE e st p)) = spawnEvent e (nextChild st) ed (launchArgs e ed p)"
    using assms n by (simp add: launchIDE_def)
  have z: "line p = Some 0 \<longrightarrow> launchArgs e ed p = [launchFile e (file' p)]"
    by (simp add: launchArgs_def)
  have g: "line p = None \<longrightarrow>
      launchArgs e ed p = getArguments e
         \<lparr> processName = ed, fileName = launchFile e (file' p),
           lineNumber = Num 1,
           colNumber = Num (case column p of None \<Rightarrow> 1 | Some c \<Rightarrow> c),
           workspace = None,
           openWindowParams = getOpenWindowParams (method' p),
           pathFormat = (if truthy (getEnvFormatPath e) then getEnvFormatPath e
                         else format p) \<rparr>"
    by (simp add: launchArgs_def Let_def)
  have o: "line p = None \<longrightarrow> launchIDE e st p = launchIDE e st (p\<lparr>line := Some 1\<rparr>)"
  proof
    assume d: "line p = None"
    have a: "launchArgs e x (p\<lparr>line := Some 1\<rparr>) = launchArgs e x p" for x
      using d by (simp add: launchArgs_def)
    have r: "reportUnrecognized e (p\<lparr>line := Some 1\<rparr>) = reportUnrecognized e p"
      by (simp add: reportUnrecognized_def)
    show "launchIDE e st p = launchIDE e st (p\<lparr>line := Some 1\<rparr>)"
      by (simp add: launchIDE_def a r split: prod.splits option.splits)
  qed
  from l z have z2: "line p = Some 0 \<longrightarrow>
      launchArgs e ed p = [launchFile e (file' p)]
      \<and> last (snd (launchIDE e st p)) =
          spawnEvent e (nextChild st) ed [launchFile e (file' p)]"
    by simp
  from l g have g2: "line p = None \<longrightarrow>
      last (snd (launchIDE e st p)) = spawnEvent e (nextChild st) ed
        (getArguments e
         \<lparr> processName = ed, fileName = launchFile e (file' p),
           lineNumber = Num 1,
           colNumber = Num (case column p of None \<Rightarrow> 1 | Some c \<Rightarrow> c),
           workspace = None,
           openWindowParams = getOpenWindowParams (method' p),
           pathFormat = (if truthy (getEnvFormatPath e) then getEnvFormatPath e
                         else format p) \<rparr>)"
    by simp
  show ?thesis
    unfolding Let_def using z2 g g2 o by blast
qed

theorem C2_line_zero_witness:
  "launchArgs (sampleEnv\<lparr>env_CODE_EDITOR := Some ''subl''\<rparr>) ''subl''
      (sampleRequest\<lparr>line := Some 0\<rparr>) = [''/a/b.js'']
   \<and> last (snd (launchIDE (sampleEnv\<lparr>env_CODE_EDITOR := Some ''subl''\<rparr>) idle
             (sampleRequest\<lparr>line := Some 0\<rparr>))) = Spawn 0 ''subl'' [''/a/b.js'']
   \<and> launchArgs (sampleEnv\<lparr>env_CODE_EDITOR := Some ''subl''\<rparr>) ''subl''
      (sampleRequest\<lparr>line := None\<rparr>) = [''/a/b.js:1:5'']
   \<and> last (snd (launchIDE (sampleEnv\<lparr>env_CODE_EDITOR := Some ''subl''\<rparr>) idle
             (sampleRequest\<lparr>line := None\<rparr>))) = Spawn 0 ''subl'' [''/a/b.js:1:5'']
   \<and> launchIDE (sampleEnv\<lparr>env_CODE_EDITOR := Some ''subl''\<rparr>) idle
             (sampleRequest\<lparr>line := None\<rparr>)
       = launchIDE (sampleEnv\<lparr>env_CODE_EDITOR := Some ''subl''\<rparr>) idle
             (sampleRequest\<lparr>line := Some 1\<rparr>)"
proof -
  let ?e = "sampleEnv\<lparr>env_CODE_EDITOR := Some ''subl''\<rparr>"
  have x: "existsSync ?e (file' (sampleRequest\<lparr>line := l\<rparr>))" for l
    by (simp add: sampleEnv_def sampleRequest_def)
  have g: "guessEditor ?e (editor (sampleRequest\<lparr>line := l\<rparr>)) = (Some ''subl'', [])" for l
    using guess_subl by (simp add: sampleRequest_def)
  have f: "launchFile ?e ''/a/b.js'' = ''/a/b.js''"
    by (simp add: launchFile_def sampleEnv_def)
  have s: "spawnEvent ?e n ''subl'' a = Spawn n ''subl'' a" for n a
    by (simp add: spawnEvent_def sampleEnv_def)
  have l0: "line (sampleRequest\<lparr>line := Some 0\<rparr>) = Some 0" by simp
  have ln: "line (sampleRequest\<lparr>line := None\<rparr>) = None" by simp
  note z = C2_line_zero [OF x g lower_subl, of "Some 0" idle,
      THEN conjunct1, rule_format, OF l0]
  note o = C2_line_zero [OF x g lower_subl, of None idle, unfolded Let_def,
      THEN conjunct2, rule_format, OF ln]
  from z have z': "launchArgs ?e ''subl'' (sampleRequest\<lparr>line := Some 0\<rparr>) = [''/a/b.js'']
      \<and> last (snd (launchIDE ?e idle (sampleRequest\<lparr>line := Some 0\<rparr>)))
          = Spawn 0 ''subl'' [''/a/b.js'']"
    by (simp add: sampleRequest_def f s idle_def)
  from o [THEN conjunct1, THEN conjunct1]
  have o1: "launchArgs ?e ''subl'' (sampleRequest\<lparr>line := None\<rparr>) = [''/a/b.js:1:5'']"
    by (simp add: sampleRequest_def f sample_format_path getOpenWindowParams_def args_subl)
  from o [THEN conjunct1, THEN conjunct2]
  have o2: "last (snd (launchIDE ?e idle (sampleRequest\<lparr>line := None\<rparr>)))
          = Spawn 0 ''subl'' [''/a/b.js:1:5'']"
    by (simp add: sampleRequest_def f s idle_def sample_format_path getOpenWindowParams_def
        args_subl)
  from o [THEN conjunct2]
  have o3: "launchIDE ?e idle (sampleRequest\<lparr>line := None\<rparr>)
          = launchIDE ?e idle (sampleRequest\<lparr>line := Some 1\<rparr>)"
    by simp
  from z' o1 o2 o3 show ?thesis by blast
qed

section \<open>An override that names no editor of the table\<close>





section \<open>Normalising an editor name twice\<close>

lemma toLowerChar_cases:
  "(c \<notin> set upperAZ \<and> toLowerChar c = c) \<or> (c \<in> set upperAZ \<and> toLowerChar c \<in> set lowerAZ)"
proof (cases "map_of (zip upperAZ lowerAZ) c")
  case None
  have len: "length upperAZ = length lowerAZ"
    by (simp add: upperAZ_def lowerAZ_def)
  from None map_of_zip_is_None [OF len, of c] have "c \<notin> set upperAZ"
    by blast
  with None show ?thesis by (simp add: toLowerChar_def)
next
  case (Some d)
  then have "(c, d) \<in> set (zip upperAZ lowerAZ)" by (rule map_of_SomeD)
  then have "c \<in> set upperAZ" "d \<in> set lowerAZ"
    by (auto dest: set_zip_leftD set_zip_rightD)
  with Some show ?thesis by (simp add: toLowerChar_def)
qed

lemma lowerAZ_not_upper: "d \<in> set lowerAZ \<Longrightarrow> d \<notin> set upperAZ"
  by (auto simp: lowerAZ_def upperAZ_def)

lemma toLowerChar_idem: "toLowerChar (toLowerChar c) = toLowerChar c"
  using toLowerChar_cases [of c] toLowerChar_cases [of "toLowerChar c"] lowerAZ_not_upper
  by auto

lemma toLowerCase_idem: "toLowerCase (toLowerCase s) = toLowerCase s"
  by (simp add: toLowerCase_def toLowerChar_idem)

lemma letters_not_separator:
  "c \<in> set upperAZ \<or> c \<in> set lowerAZ \<Longrightarrow> \<not> isPathSeparator pf c"
  by (auto simp: isPathSeparator_def upperAZ_def lowerAZ_def)

lemma toLowerChar_separator: "isPathSeparator pf (toLowerChar c) = isPathSeparator pf c"
  using toLowerChar_cases [of c] letters_not_separator [of c pf]
    letters_not_separator [of "toLowerChar c" pf]
  by auto

lemma toLowerCase_separator:
  "list_ex (isPathSeparator pf) (toLowerCase s) = list_ex (isPathSeparator pf) s"
  by (induction s) (simp_all add: toLowerCase_def toLowerChar_separator)

lemma basename_no_separator: "\<not> list_ex (isPathSeparator pf) (basename pf s)"
proof -
  have "\<forall>c \<in> set (takeWhile (\<lambda>c. \<not> isPathSeparator pf c) xs). \<not> isPathSeparator pf c" for xs
    by (auto dest: set_takeWhileD)
  then show ?thesis
    by (simp add: basename_def Let_def list_ex_iff)
qed

lemma stripExt_take: "\<exists>n. stripExt s = take n s"
  by (auto simp: stripExt_def Let_def intro: exI [of _ "length s"])

lemma stripExt_no_separator:
  "\<not> list_ex (isPathSeparator pf) s \<Longrightarrow> \<not> list_ex (isPathSeparator pf) (stripExt s)"
proof -
  assume a: "\<not> list_ex (isPathSeparator pf) s"
  obtain n where "stripExt s = take n s" using stripExt_take by blast
  with a show ?thesis by (auto simp: list_ex_iff dest: in_set_takeD)
qed

lemma basename_plain:
  assumes "\<not> list_ex (isPathSeparator pf) s" and "pf = Win32 \<longrightarrow> \<not> hasDrivePrefix s"
  shows "basename pf s = s"
proof -
  have n: "\<forall>c \<in> set (rev s). \<not> isPathSeparator pf c"
    using assms(1) by (simp add: list_ex_iff)
  then have d: "dropWhile (isPathSeparator pf) (rev s) = rev s"
    by (cases "rev s") auto
  from n have t: "takeWhile (\<lambda>c. \<not> isPathSeparator pf c) (rev s) = rev s"
    by (simp add: takeWhile_eq_all_conv)
  have b: "(if pf = Win32 \<and> hasDrivePrefix s then drop 2 s else s) = s"
    using assms(2) by auto
  show ?thesis
    unfolding basename_def Let_def b d t by simp
qed


lemma find_SomeD: "find P xs = Some x \<Longrightarrow> x \<in> set xs \<and> P x"
  by (induction xs) (auto split: if_splits)

lemma normalized_no_separator:
  assumes "\<forall>(name, paths) \<in> set (COMMON_EDITOR_PROCESS_MAP e (platform e)).
             \<not> list_ex (isPathSeparator (platform e)) name"
  shows "\<not> list_ex (isPathSeparator (platform e)) (getEditorBasenameByProcessName e x)"
proof (cases "find (\<lambda>(name, editorPaths). list_ex (endsWith x) editorPaths)
                (COMMON_EDITOR_PROCESS_MAP e (platform e))")
  case None
  then show ?thesis
    by (simp add: getEditorBasenameByProcessName_def Let_def toLowerCase_separator
        stripExt_no_separator basename_no_separator)
next
  case (Some entry)
  obtain name paths where en: "entry = (name, paths)" by (cases entry)
  from Some have "entry \<in> set (COMMON_EDITOR_PROCESS_MAP e (platform e))"
    by (auto dest: find_SomeD)
  with assms en have "\<not> list_ex (isPathSeparator (platform e)) name" by auto
  with Some en show ?thesis
    by (simp add: getEditorBasenameByProcessName_def Let_def toLowerCase_separator)
qed

lemma normalized_lower:
  "toLowerCase (getEditorBasenameByProcessName e x) = getEditorBasenameByProcessName e x"
  by (simp add: getEditorBasenameByProcessName_def Let_def toLowerCase_idem)

lemma sample_foo: "''foo'' = getEditorBasenameByProcessName sampleEnv ''/usr/bin/Foo.SH''"
  by code_simp

lemma sample_keys:
  "\<forall>(name, paths) \<in> set (COMMON_EDITOR_PROCESS_MAP sampleEnv (platform sampleEnv)).
     \<not> list_ex (isPathSeparator (platform sampleEnv)) name"
  by code_simp

lemma sample_own:
  "\<forall>(name, paths) \<in> set (COMMON_EDITOR_PROCESS_MAP sampleEnv (platform sampleEnv)).
     list_ex (endsWith ''foo'') paths \<longrightarrow> toLowerCase name = ''foo''"
  by code_simp

lemma sample_ext: "stripExt ''foo'' = ''foo''"
  by code_simp

lemma sample_drive: "platform sampleEnv = Win32 \<longrightarrow> \<not> hasDrivePrefix ''foo''"
  by code_simp

text \<open>
  Claim C9, as stated, fails: one executable extension is cut at a time, so a name with
  two of them changes again when it is normalised a second time.
\<close>

theorem C9_idempotent_counterexample:
  "getEditorBasenameByProcessName sampleEnv ''/usr/bin/foo.sh.sh'' = ''foo.sh''
   \<and> getEditorBasenameByProcessName sampleEnv
        (getEditorBasenameByProcessName sampleEnv ''/usr/bin/foo.sh.sh'') = ''foo''
   \<and> getEditorBasenameByProcessName sampleEnv
        (getEditorBasenameByProcessName sampleEnv ''/usr/bin/foo.sh.sh'')
      \<noteq> getEditorBasenameByProcessName sampleEnv ''/usr/bin/foo.sh.sh''"
  by code_simp

text \<open>
  Claim C9, amended. Let the names of the platform table contain no path separator, and
  let \<open>y\<close> be the normalisation of a process name. When \<open>y\<close> does not end in
  another executable extension, does not start with a drive prefix on Windows, and every
  table entry with a path that \<open>y\<close> ends with has the name \<open>y\<close> (up to letter
  case), normalising \<open>y\<close> gives \<open>y\<close> again.
\<close>

theorem C9_idempotent_on_canonical:
  assumes y: "y = getEditorBasenameByProcessName e x"
    and keys: "\<forall>(name, paths) \<in> set (COMMON_EDITOR_PROCESS_MAP e (platform e)).
                 \<not> list_ex (isPathSeparator (platform e)) name"
    and own: "\<forall>(name, paths) \<in> set (COMMON_EDITOR_PROCESS_MAP e (platform e)).
                 list_ex (endsWith y) paths \<longrightarrow> toLowerCase name = y"
    and ext: "stripExt y = y"
    and drive: "platform e = Win32 \<longrightarrow> \<not> hasDrivePrefix y"
  shows "getEditorBasenameByProcessName e y = y"
proof (cases "find (\<lambda>(name, editorPaths). list_ex (endsWith y) editorPaths)
                (COMMON_EDITOR_PROCESS_MAP e (platform e))")
  case None
  have "\<not> list_ex (isPathSeparator (platform e)) y"
    unfolding y using keys by (rule normalized_no_separator)
  with drive have "basename (platform e) y = y"
    by (simp add: basename_plain)
  moreover have "toLowerCase y = y"
    unfolding y by (rule normalized_lower)
  ultimately show ?thesis
    using None ext by (simp add: getEditorBasenameByProcessName_def Let_def)
next
  case (Some entry)
  obtain name paths where en: "entry = (name, paths)" by (cases entry)
  from Some have "entry \<in> set (COMMON_EDITOR_PROCESS_MAP e (platform e))"
    and "(\<lambda>(name, editorPaths). list_ex (endsWith y) editorPaths) entry"
    by (auto dest: find_SomeD)
  with own en have "toLowerCase name = y" by auto
  with Some en show ?thesis
    by (simp add: getEditorBasenameByProcessName_def Let_def)
qed


theorem C9_idempotent_witness:
  "getEditorBasenameByProcessName sampleEnv
     (getEditorBasenameByProcessName sampleEnv ''/usr/bin/Foo.SH'')
   = getEditorBasenameByProcessName sampleEnv ''/usr/bin/Foo.SH''"
proof -
  have "getEditorBasenameByProcessName sampleEnv ''foo'' = ''foo''"
    by (rule C9_idempotent_on_canonical
          [OF sample_foo sample_keys sample_own sample_ext sample_drive])
  then show ?thesis
    by (simp only: sample_foo [symmetric])
qed


section \<open>Placeholders and dollar signs\<close>

text \<open>
  The shape of the result: one element for a string format, one element for each
  template of a list format, in the order of the list.
\<close>

lemma replace_literal: "CHR 0x24 \<notin> set r \<Longrightarrow> replace s pat r = replaceLiteral s pat r"
  by (simp add: replace_def replaceLiteral_def getSubstitution_plain split: option.splits)

lemma digits_no_dollar: "CHR 0x24 \<notin> set (digits n)"
proof (induction n rule: digits.induct)
  case (1 n)
  have d: "m < 10 \<Longrightarrow> ''0123456789'' ! m \<noteq> CHR 0x24" for m :: nat
  proof -
    assume "m < 10"
    then have "m \<in> {0, 1, 2, 3, 4, 5, 6, 7, 8, 9}" by auto
    then show ?thesis by auto
  qed
  show ?case
  proof (cases "n < 10")
    case True
    then show ?thesis using d [of n] by (subst digits.simps) simp
  next
    case False
    with 1 d [of "n mod 10"] show ?thesis by (subst digits.simps) simp
  qed
qed

lemma numToString_no_dollar: "CHR 0x24 \<notin> set (numToString i)"
  by (simp add: numToString_def digits_no_dollar)

lemma formatOpenPath_shape:
  "length (formatOpenPath f l c (FStr t)) = 1
   \<and> length (formatOpenPath f l c (FArr ts)) = length ts
   \<and> (\<forall>i < length ts. formatOpenPath f l c (FArr ts) ! i = hd (formatOpenPath f l c (FStr (ts ! i))))"
  by simp

lemma formatOpenPath_literal:
  assumes "CHR 0x24 \<notin> set f"
  shows "formatOpenPath f (Num l) (Num c) (FStr t) = [substituteLiteral f (Num l) (Num c) t]"
    and "formatOpenPath f (Num l) (Num c) (FArr ts) = map (substituteLiteral f (Num l) (Num c)) ts"
  using assms
  by (simp_all add: substitute_def substituteLiteral_def replace_literal numToString_no_dollar)

text \<open>
  Claim C6. The substitution is not literal when the file name has a dollar sign:
  \<open>String.prototype.replace\<close> reads \<open>$$\<close> in the replacement as one dollar sign,
  so the file \<open>/src/$$typeof.js\<close> comes out as \<open>/src/$typeof.js\<close>, while literal
  substitution keeps the name.
\<close>

theorem C6_dollar_in_file_name:
  "formatOpenPath dollarFile (Num 10) (Num 5) (FStr ''{file}:{line}:{column}'')
     = [''/src/$typeof.js:10:5'']
   \<and> substituteLiteral dollarFile (Num 10) (Num 5) ''{file}:{line}:{column}''
     = ''/src/$$typeof.js:10:5''
   \<and> formatOpenPath dollarFile (Num 10) (Num 5) (FStr ''{file}:{line}:{column}'')
     \<noteq> [substituteLiteral dollarFile (Num 10) (Num 5) ''{file}:{line}:{column}'']"
  by code_simp

end
